theory Spec2Isabelle
  imports Complex_Main
begin

section \<open>Errors\<close>

text \<open>
  The exceptions the modelled code can raise. \<open>DateOutOfRange\<close> stands for the
  exception \<open>datetime\<close> raises when a value lies outside the years 1 to 9999
  (\<open>ValueError\<close>, \<open>OverflowError\<close> or \<open>OSError\<close>, depending on where the range is
  left); \<open>TimedeltaOutOfBounds\<close> for the one \<open>pandas.Timedelta\<close> raises when the
  duration does not fit its 64-bit nanosecond representation; \<open>TransportError\<close> for an
  exception of \<open>requests.get\<close> itself.
\<close>

datatype error =
    KeyError string
  | IndexError
  | AttributeError
  | JSONDecodeError
  | DateOutOfRange
  | TimedeltaOutOfBounds
  | TransportError

section \<open>Time formatter\<close>

text \<open>
  A \<open>datetime\<close> is represented by its number of seconds since 1970-01-01T00:00:00 on
  its own time basis. The representable range is 0001-01-01T00:00:00 to
  9999-12-31T23:59:59, and the conversions from a timestamp are those of a platform whose
  C library covers all of it.
\<close>

definition MIN_SECONDS :: int where
  "MIN_SECONDS = - 62135596800"

definition MAX_SECONDS :: int where
  "MAX_SECONDS = 253402300799"

definition in_datetime_range :: "int \<Rightarrow> bool" where
  "in_datetime_range s \<longleftrightarrow> MIN_SECONDS \<le> s \<and> s \<le> MAX_SECONDS"

text \<open>\<open>datetime.utcfromtimestamp(timestamp)\<close>, for an integer timestamp.\<close>

definition utcfromtimestamp :: "int \<Rightarrow> error + int" where
  "utcfromtimestamp t = (if in_datetime_range t then Inr t else Inl DateOutOfRange)"

text \<open>
  \<open>pd.Timedelta(seconds=n)\<close>: the duration is held as a signed 64-bit count of
  nanoseconds, so at most 9223372036 whole seconds either way.
\<close>

definition TIMEDELTA_MAX_SECONDS :: int where
  "TIMEDELTA_MAX_SECONDS = 9223372036"

definition Timedelta :: "int \<Rightarrow> error + int" where
  "Timedelta n =
     (if - TIMEDELTA_MAX_SECONDS \<le> n \<and> n \<le> TIMEDELTA_MAX_SECONDS then Inr n
      else Inl TimedeltaOutOfBounds)"

text \<open>\<open>datetime + timedelta\<close>: raises when the sum leaves the range of \<open>datetime\<close>.\<close>

definition datetime_add :: "int \<Rightarrow> int \<Rightarrow> error + int" where
  "datetime_add d td =
     (if in_datetime_range (d + td) then Inr (d + td) else Inl DateOutOfRange)"

text \<open>\<open>strftime('%H:%M:%S')\<close>: the wall-clock part, each field as two decimal digits.\<close>

definition digit_char :: "int \<Rightarrow> char" where
  "digit_char d = ''0123456789'' ! nat d"

definition two_digits :: "int \<Rightarrow> string" where
  "two_digits n = [digit_char (n div 10), digit_char (n mod 10)]"

definition strftime_HMS :: "int \<Rightarrow> string" where
  "strftime_HMS d =
     (let s = d mod 86400 in
      two_digits (s div 3600) @ '':'' @ two_digits (s mod 3600 div 60) @ '':'' @
      two_digits (s mod 60))"

definition format_unix_time :: "int \<Rightarrow> int \<Rightarrow> error + string" where
  "format_unix_time timestamp timezone_offset =
     (case utcfromtimestamp timestamp of
        Inl e \<Rightarrow> Inl e
      | Inr utc_dt \<Rightarrow>
          (case Timedelta timezone_offset of
             Inl e \<Rightarrow> Inl e
           | Inr td \<Rightarrow>
               (case datetime_add utc_dt td of
                  Inl e \<Rightarrow> Inl e
                | Inr local_dt \<Rightarrow> Inr (strftime_HMS local_dt))))"

section \<open>Forecast aggregator\<close>

subsection \<open>String capitalization\<close>

text \<open>
  \<open>str.capitalize()\<close> on the ASCII text the provider sends: the first character is
  upper-cased, every later one lower-cased, and a character that is not an ASCII letter is
  kept as it is.
\<close>

definition lower_letters :: string where
  "lower_letters = ''abcdefghijklmnopqrstuvwxyz''"

definition upper_letters :: string where
  "upper_letters = ''ABCDEFGHIJKLMNOPQRSTUVWXYZ''"

definition upper_char :: "char \<Rightarrow> char" where
  "upper_char c =
     (case map_of (zip lower_letters upper_letters) c of Some u \<Rightarrow> u | None \<Rightarrow> c)"

definition lower_char :: "char \<Rightarrow> char" where
  "lower_char c =
     (case map_of (zip upper_letters lower_letters) c of Some l \<Rightarrow> l | None \<Rightarrow> c)"



fun capitalize :: "string \<Rightarrow> string" where
  "capitalize [] = []"
| "capitalize (c # cs) = upper_char c # map lower_char cs"

subsection \<open>Forecast samples and the intermediate table\<close>

text \<open>
  One element of \<open>forecast_data['list']\<close>: \<open>dt\<close> is \<open>entry['dt']\<close>, \<open>temp\<close> is
  \<open>entry['main']['temp']\<close>, and \<open>weather\<close> holds the \<open>description\<close> of each element of
  \<open>entry['weather']\<close>, in order. The list itself is the argument of the model, and
  temperatures are real numbers.
\<close>

record forecast_entry =
  dt :: int
  temp :: real
  weather :: "string list"

text \<open>
  A row of \<open>df\<close>. \<open>row_Time\<close> is the naive local \<open>datetime\<close> in seconds, \<open>row_Date\<close> its
  calendar date as the number of days since 1970-01-01; dates compare as these day
  numbers do. The temperature column is named after \<open>unit_symbol\<close>, which is all that
  argument is used for.
\<close>

record df_row =
  row_Time :: int
  row_Date :: int
  row_Temperature :: real
  row_Weather :: string

text \<open>A row of the returned table.\<close>

record daily_row =
  Date :: int
  Max_Temp :: real
  Min_Temp :: real
  Weather :: string

text \<open>
  \<open>datetime.fromtimestamp(t)\<close> gives the wall-clock time of the host's own time zone.
  The zone is the parameter \<open>tz\<close>: \<open>tz t\<close> is the zone's offset from UTC, in seconds, at
  the instant \<open>t\<close>.
\<close>

definition fromtimestamp :: "(int \<Rightarrow> int) \<Rightarrow> int \<Rightarrow> error + int" where
  "fromtimestamp tz t =
     (if in_datetime_range (t + tz t) then Inr (t + tz t) else Inl DateOutOfRange)"

definition date_of :: "int \<Rightarrow> int" where
  "date_of time = time div 86400"

definition utc_zone :: "int \<Rightarrow> int" where
  "utc_zone t = 0"

definition fixed_zone :: "int \<Rightarrow> int \<Rightarrow> int" where
  "fixed_zone offset t = offset"

definition df_row_of :: "(int \<Rightarrow> int) \<Rightarrow> forecast_entry \<Rightarrow> error + df_row" where
  "df_row_of tz entry =
     (case fromtimestamp tz (dt entry) of
        Inl e \<Rightarrow> Inl e
      | Inr time \<Rightarrow>
          (case weather entry of
             [] \<Rightarrow> Inl IndexError
           | description # _ \<Rightarrow>
               Inr \<lparr>row_Time = time, row_Date = date_of time,
                    row_Temperature = temp entry, row_Weather = capitalize description\<rparr>))"

fun build_df_list :: "(int \<Rightarrow> int) \<Rightarrow> forecast_entry list \<Rightarrow> error + df_row list" where
  "build_df_list tz [] = Inr []"
| "build_df_list tz (entry # entries) =
     (case df_row_of tz entry of
        Inl e \<Rightarrow> Inl e
      | Inr r \<Rightarrow>
          (case build_df_list tz entries of
             Inl e \<Rightarrow> Inl e
           | Inr rs \<Rightarrow> Inr (r # rs)))"

subsection \<open>Grouping by date\<close>

text \<open>
  \<open>df.groupby('Date')\<close> sorts the distinct keys ascending and keeps, in each group, the
  rows in the order of \<open>df\<close>. A group is never empty, so the three aggregations are given
  for a non-empty column only.
\<close>

definition group_keys :: "df_row list \<Rightarrow> int list" where
  "group_keys df = sort (remdups (map row_Date df))"

definition group_rows :: "df_row list \<Rightarrow> int \<Rightarrow> df_row list" where
  "group_rows df d = filter (\<lambda>r. row_Date r = d) df"

fun series_max :: "real list \<Rightarrow> real" where
  "series_max (x # xs) = fold max xs x"

fun series_min :: "real list \<Rightarrow> real" where
  "series_min (x # xs) = fold min xs x"

fun iloc0 :: "'a list \<Rightarrow> 'a" where
  "iloc0 (x # xs) = x"

definition agg :: "df_row list \<Rightarrow> int \<Rightarrow> daily_row" where
  "agg df d =
     (let g = group_rows df d in
      \<lparr>Date = d,
       Max_Temp = series_max (map row_Temperature g),
       Min_Temp = series_min (map row_Temperature g),
       Weather = iloc0 (map row_Weather g)\<rparr>)"

text \<open>
  \<open>pd.DataFrame([])\<close> has no columns, so \<open>groupby('Date')\<close> raises \<open>KeyError\<close> when
  \<open>df_list\<close> is empty.
\<close>

definition create_forecast_dataframe ::
    "(int \<Rightarrow> int) \<Rightarrow> forecast_entry list \<Rightarrow> error + daily_row list" where
  "create_forecast_dataframe tz forecast_list =
     (case build_df_list tz forecast_list of
        Inl e \<Rightarrow> Inl e
      | Inr df \<Rightarrow>
          (case df of
             [] \<Rightarrow> Inl (KeyError ''Date'')
           | _ # _ \<Rightarrow> Inr (take 5 (map (agg df) (group_keys df)))))"


subsection \<open>Notions used to state the properties\<close>

text \<open>
  The calendar date \<open>create_forecast_dataframe\<close> gives a sample, and the row of \<open>df\<close> a
  sample yields when \<open>df_row_of\<close> returns.
\<close>

definition local_date :: "(int \<Rightarrow> int) \<Rightarrow> forecast_entry \<Rightarrow> int" where
  "local_date tz e = date_of (dt e + tz (dt e))"

definition row_of :: "(int \<Rightarrow> int) \<Rightarrow> forecast_entry \<Rightarrow> df_row" where
  "row_of tz e =
     \<lparr>row_Time = dt e + tz (dt e), row_Date = local_date tz e,
      row_Temperature = temp e, row_Weather = capitalize (hd (weather e))\<rparr>"

text \<open>Two forecasts to run the aggregation on: three samples over two days, and six days.\<close>

definition sample_entries :: "forecast_entry list" where
  "sample_entries =
     [\<lparr>dt = 43200, temp = 10, weather = [''light rain'']\<rparr>,
      \<lparr>dt = 54000, temp = 15, weather = [''clear sky'']\<rparr>,
      \<lparr>dt = 129600, temp = 8, weather = [''few clouds'']\<rparr>]"

definition six_days :: "forecast_entry list" where
  "six_days =
     [\<lparr>dt = 432000, temp = 6, weather = [''mist'']\<rparr>,
      \<lparr>dt = 345600, temp = 5, weather = [''snow'']\<rparr>,
      \<lparr>dt = 0, temp = 1, weather = [''rain'']\<rparr>,
      \<lparr>dt = 86400, temp = 2, weather = [''haze'']\<rparr>,
      \<lparr>dt = 259200, temp = 4, weather = [''fog'']\<rparr>,
      \<lparr>dt = 172800, temp = 3, weather = [''hail'']\<rparr>]"

section \<open>Weather client\<close>

datatype json =
    JNull
  | JBool bool
  | JNum real
  | JStr string
  | JArr "json list"
  | JObj "(string \<times> json) list"

text \<open>
  An HTTP response: its status code and what \<open>.json()\<close> gives, \<open>None\<close> when the body is
  not JSON and \<open>.json()\<close> raises.
\<close>

record response =
  status_code :: int
  body :: "json option"

text \<open>The returned dictionary: \<open>{'error': m}\<close> or \<open>{'current': c, 'forecast': f}\<close>.\<close>

datatype weather_data = Error json | Success json json

definition API_KEY :: string where
  "API_KEY = ''5a53980184dd4b1e993193b19f7d2d18''"

definition CURRENT_URL :: string where
  "CURRENT_URL = ''http://api.openweathermap.org/data/2.5/weather''"

definition FORECAST_URL :: string where
  "FORECAST_URL = ''http://api.openweathermap.org/data/2.5/forecast''"

definition response_json :: "response \<Rightarrow> error + json" where
  "response_json r = (case body r of None \<Rightarrow> Inl JSONDecodeError | Some j \<Rightarrow> Inr j)"

text \<open>\<open>j.get(key, default)\<close>: a method of dictionaries only.\<close>

definition json_get :: "json \<Rightarrow> string \<Rightarrow> json \<Rightarrow> error + json" where
  "json_get j key dflt =
     (case j of
        JObj kvs \<Rightarrow> (case map_of kvs key of Some v \<Rightarrow> Inr v | None \<Rightarrow> Inr dflt)
      | _ \<Rightarrow> Inl AttributeError)"

definition error_of :: "response \<Rightarrow> string \<Rightarrow> error + weather_data" where
  "error_of r fallback =
     (case response_json r of
        Inl e \<Rightarrow> Inl e
      | Inr j \<Rightarrow>
          (case json_get j ''message'' (JStr fallback) of
             Inl e \<Rightarrow> Inl e
           | Inr m \<Rightarrow> Inr (Error m)))"

text \<open>
  The body of \<open>get_weather_data\<close>, without the cache around it. \<open>requests.get\<close> is the
  parameter \<open>get\<close>, from a URL and the query parameters to a response or an exception.
\<close>

definition get_weather_data ::
    "(string \<Rightarrow> (string \<times> string) list \<Rightarrow> error + response) \<Rightarrow> string \<Rightarrow> string \<Rightarrow>
     error + weather_data" where
  "get_weather_data get city unit =
     (let params = [(''q'', city), (''appid'', API_KEY), (''units'', unit)] in
      case get CURRENT_URL params of
        Inl e \<Rightarrow> Inl e
      | Inr current_response \<Rightarrow>
          (case get FORECAST_URL params of
             Inl e \<Rightarrow> Inl e
           | Inr forecast_response \<Rightarrow>
               if status_code current_response \<noteq> 200
               then error_of current_response ''Error fetching current weather data.''
               else if status_code forecast_response \<noteq> 200
               then error_of forecast_response ''Error fetching forecast data.''
               else
                 (case response_json current_response of
                    Inl e \<Rightarrow> Inl e
                  | Inr c \<Rightarrow>
                      (case response_json forecast_response of
                         Inl e \<Rightarrow> Inl e
                       | Inr f \<Rightarrow> Inr (Success c f)))))"

text \<open>A transport that answers the two endpoints with two given responses.\<close>

definition stub_transport ::
    "response \<Rightarrow> response \<Rightarrow> string \<Rightarrow> (string \<times> string) list \<Rightarrow> error + response" where
  "stub_transport current_response forecast_response url params =
     (if url = CURRENT_URL then Inr current_response else Inr forecast_response)"

section \<open>Properties of the time formatter\<close>

lemma format_unix_time_Inr_iff:
  "format_unix_time t off = Inr s \<longleftrightarrow>
     in_datetime_range t \<and> - TIMEDELTA_MAX_SECONDS \<le> off \<and> off \<le> TIMEDELTA_MAX_SECONDS \<and>
     in_datetime_range (t + off) \<and> s = strftime_HMS (t + off)"
  by (auto simp: format_unix_time_def utcfromtimestamp_def Timedelta_def datetime_add_def)

text \<open>
  C9: \<open>format_unix_time\<close> applied to timestamp 0 with offset 0 returns the string
  \<open>00:00:00\<close>.
\<close>

theorem format_unix_time_epoch: "format_unix_time 0 0 = Inr ''00:00:00''"
  by (simp add: format_unix_time_def utcfromtimestamp_def Timedelta_def datetime_add_def
      in_datetime_range_def MIN_SECONDS_def MAX_SECONDS_def TIMEDELTA_MAX_SECONDS_def
      strftime_HMS_def two_digits_def digit_char_def)

text \<open>
  Counterexample to C8 as stated: the timestamp 253402300800 is the first second of the
  year 10000, which \<open>utcfromtimestamp\<close> refuses, while one second earlier is the last
  instant a \<open>datetime\<close> holds.
\<close>

theorem offset_shift_counterexample:
  "format_unix_time 253402300800 (- 1) = Inl DateOutOfRange \<and>
   format_unix_time (253402300800 + - 1) 0 = Inr ''23:59:59''"
  by (simp add: format_unix_time_def utcfromtimestamp_def Timedelta_def datetime_add_def
      in_datetime_range_def MIN_SECONDS_def MAX_SECONDS_def TIMEDELTA_MAX_SECONDS_def
      strftime_HMS_def two_digits_def digit_char_def)

text \<open>
  C8, amended: for every timestamp \<open>t\<close> in the range of \<open>datetime\<close> and every offset in
  the range of \<open>Timedelta\<close>, \<open>format_unix_time t offset\<close> returns a string exactly when
  \<open>format_unix_time (t + offset) 0\<close> does, and then both return the same string.
\<close>

theorem offset_shift:
  assumes "in_datetime_range t"
    and "- TIMEDELTA_MAX_SECONDS \<le> off" and "off \<le> TIMEDELTA_MAX_SECONDS"
  shows "format_unix_time t off = Inr s \<longleftrightarrow> format_unix_time (t + off) 0 = Inr s"
  using assms by (auto simp: format_unix_time_Inr_iff TIMEDELTA_MAX_SECONDS_def)

theorem offset_shift_witness:
  "in_datetime_range 1700000000 \<and> - TIMEDELTA_MAX_SECONDS \<le> 19800 \<and>
   19800 \<le> TIMEDELTA_MAX_SECONDS \<and>
   format_unix_time 1700000000 19800 = Inr ''03:43:20'' \<and>
   format_unix_time (1700000000 + 19800) 0 = Inr ''03:43:20''"
proof -
  have r: "in_datetime_range 1700000000"
    by (simp add: in_datetime_range_def MIN_SECONDS_def MAX_SECONDS_def)
  have lo: "- TIMEDELTA_MAX_SECONDS \<le> 19800" and hi: "19800 \<le> TIMEDELTA_MAX_SECONDS"
    by (simp_all add: TIMEDELTA_MAX_SECONDS_def)
  have l: "format_unix_time 1700000000 19800 = Inr ''03:43:20''"
    by (simp add: format_unix_time_def utcfromtimestamp_def Timedelta_def datetime_add_def
        in_datetime_range_def MIN_SECONDS_def MAX_SECONDS_def TIMEDELTA_MAX_SECONDS_def
        strftime_HMS_def two_digits_def digit_char_def)
  from offset_shift [OF r lo hi, of "''03:43:20''"] l
  have "format_unix_time (1700000000 + 19800) 0 = Inr ''03:43:20''" by simp
  with r lo hi l show ?thesis by simp
qed

section \<open>Properties of the forecast aggregator\<close>

subsection \<open>What the function returns, and when\<close>

lemma df_row_of_Inr:
  "df_row_of tz e = Inr r \<Longrightarrow> r = row_of tz e \<and> weather e \<noteq> []"
  by (auto simp: df_row_of_def fromtimestamp_def row_of_def local_date_def
      split: if_splits list.splits)

lemma build_df_list_Inr:
  "build_df_list tz es = Inr df \<Longrightarrow>
     df = map (row_of tz) es \<and> (\<forall>e\<in>set es. weather e \<noteq> [])"
proof (induction es arbitrary: df)
  case Nil
  then show ?case by simp
next
  case (Cons e es)
  then show ?case
    by (auto split: sum.splits dest: df_row_of_Inr)
qed

lemma create_forecast_dataframe_Inr:
  assumes "create_forecast_dataframe tz es = Inr out"
  shows "es \<noteq> [] \<and> (\<forall>e\<in>set es. weather e \<noteq> []) \<and>
    out = take 5 (map (agg (map (row_of tz) es)) (group_keys (map (row_of tz) es)))"
  using assms
  by (auto simp: create_forecast_dataframe_def split: sum.splits list.splits
      dest!: build_df_list_Inr)

lemma df_row_of_returns:
  "in_datetime_range (dt e + tz (dt e)) \<Longrightarrow> weather e \<noteq> [] \<Longrightarrow>
     df_row_of tz e = Inr (row_of tz e)"
  by (cases "weather e")
    (simp_all add: df_row_of_def fromtimestamp_def row_of_def local_date_def)

lemma build_df_list_returns:
  "\<forall>e\<in>set es. in_datetime_range (dt e + tz (dt e)) \<and> weather e \<noteq> [] \<Longrightarrow>
     build_df_list tz es = Inr (map (row_of tz) es)"
  by (induction es) (simp_all add: df_row_of_returns)

lemma create_forecast_dataframe_returns:
  assumes "es \<noteq> []"
    and "\<forall>e\<in>set es. in_datetime_range (dt e + tz (dt e)) \<and> weather e \<noteq> []"
  shows "\<exists>out. create_forecast_dataframe tz es = Inr out"
proof -
  from assms(1) obtain e es' where "es = e # es'" by (cases es) auto
  with build_df_list_returns [OF assms(2)] show ?thesis
    by (simp add: create_forecast_dataframe_def)
qed

subsection \<open>Groups\<close>

lemma Date_agg: "Date (agg df d) = d"
  by (simp add: agg_def Let_def)

lemma map_Date_agg: "map Date (map (agg df) ds) = ds"
  by (induction ds) (simp_all add: Date_agg)

lemma group_keys_strict: "sorted_wrt (<) (group_keys df)"
  by (simp add: group_keys_def strict_sorted_iff)

lemma set_group_keys: "set (group_keys df) = row_Date ` set df"
  by (simp add: group_keys_def)

lemma group_rows_map:
  "group_rows (map (row_of tz) es) d = map (row_of tz) (filter (\<lambda>e. local_date tz e = d) es)"
  by (simp add: group_rows_def filter_map comp_def row_of_def)

lemma find_filter_Cons: "filter P xs = x # ys \<Longrightarrow> List.find P xs = Some x"
  by (induction xs) (auto split: if_splits)




text \<open>
  Every returned row is the aggregate of the samples of its own date, and there is such
  a sample.
\<close>

lemma out_row:
  assumes "create_forecast_dataframe tz es = Inr out" and "r \<in> set out"
  shows "r = agg (map (row_of tz) es) (Date r) \<and>
         filter (\<lambda>e. local_date tz e = Date r) es \<noteq> [] \<and> (\<forall>e\<in>set es. weather e \<noteq> [])"
proof -
  let ?df = "map (row_of tz) es"
  from create_forecast_dataframe_Inr [OF assms(1)] have w: "\<forall>e\<in>set es. weather e \<noteq> []"
    and out: "out = take 5 (map (agg ?df) (group_keys ?df))" by blast+
  from assms(2) out have "r \<in> set (map (agg ?df) (group_keys ?df))"
    by (auto dest: in_set_takeD)
  then obtain d where d: "d \<in> set (group_keys ?df)" and r: "r = agg ?df d" by auto
  have dr: "Date r = d" by (simp add: r Date_agg)
  from d obtain e where "e \<in> set es" "local_date tz e = d"
    by (auto simp: set_group_keys row_of_def)
  then have "filter (\<lambda>e. local_date tz e = d) es \<noteq> []"
    by (auto simp: filter_empty_conv)
  with r dr w show ?thesis by simp
qed

lemma first_sample_label:
  assumes "create_forecast_dataframe tz es = Inr out" and "r \<in> set out"
  shows "\<exists>e d ds. List.find (\<lambda>e. local_date tz e = Date r) es = Some e \<and>
           weather e = d # ds \<and> Weather r = capitalize d"
proof -
  let ?P = "\<lambda>e. local_date tz e = Date r"
  from out_row [OF assms] have r: "r = agg (map (row_of tz) es) (Date r)"
    and ne: "filter ?P es \<noteq> []" and w: "\<forall>e\<in>set es. weather e \<noteq> []"
    by blast+
  from ne obtain e g where g: "filter ?P es = e # g" by (cases "filter ?P es") auto
  then have f: "List.find ?P es = Some e" by (rule find_filter_Cons)
  have "e \<in> set (filter ?P es)" by (simp add: g)
  then have "e \<in> set es" by simp
  with w obtain d ds where wd: "weather e = d # ds" by (cases "weather e") auto
  have "Weather r = capitalize d"
    by (subst r) (simp add: agg_def Let_def group_rows_map g row_of_def wd)
  with f wd show ?thesis by blast
qed

subsection \<open>The two forecasts, aggregated\<close>

lemma sample_entries_aggregated:
  "create_forecast_dataframe utc_zone sample_entries =
     Inr [\<lparr>Date = 0, Max_Temp = 15, Min_Temp = 10, Weather = ''Light rain''\<rparr>,
          \<lparr>Date = 1, Max_Temp = 8, Min_Temp = 8, Weather = ''Few clouds''\<rparr>]"
  by (simp add: create_forecast_dataframe_def sample_entries_def df_row_of_def fromtimestamp_def
      utc_zone_def in_datetime_range_def MIN_SECONDS_def MAX_SECONDS_def date_of_def
      group_keys_def agg_def group_rows_def Let_def upper_char_def lower_char_def
      lower_letters_def upper_letters_def)

lemma six_days_aggregated:
  "create_forecast_dataframe utc_zone six_days =
     Inr [\<lparr>Date = 0, Max_Temp = 1, Min_Temp = 1, Weather = ''Rain''\<rparr>,
          \<lparr>Date = 1, Max_Temp = 2, Min_Temp = 2, Weather = ''Haze''\<rparr>,
          \<lparr>Date = 2, Max_Temp = 3, Min_Temp = 3, Weather = ''Hail''\<rparr>,
          \<lparr>Date = 3, Max_Temp = 4, Min_Temp = 4, Weather = ''Fog''\<rparr>,
          \<lparr>Date = 4, Max_Temp = 5, Min_Temp = 5, Weather = ''Snow''\<rparr>]"
  by (simp add: create_forecast_dataframe_def six_days_def df_row_of_def fromtimestamp_def
      utc_zone_def in_datetime_range_def MIN_SECONDS_def MAX_SECONDS_def date_of_def
      group_keys_def agg_def group_rows_def Let_def upper_char_def lower_char_def
      lower_letters_def upper_letters_def)

subsection \<open>Size and order of the result\<close>

text \<open>
  C1: whenever \<open>create_forecast_dataframe\<close> returns a table, the table has at most 5
  rows and the dates of its rows are strictly ascending, so no date occurs twice.
\<close>

theorem at_most_five_rows_ascending:
  assumes "create_forecast_dataframe tz es = Inr out"
  shows "length out \<le> 5 \<and> sorted_wrt (<) (map Date out)"
proof -
  from create_forecast_dataframe_Inr [OF assms] obtain df where
    out: "out = take 5 (map (agg df) (group_keys df))" by blast
  have "map Date out = take 5 (group_keys df)"
    by (simp add: out take_map [symmetric] map_Date_agg del: map_map)
  then show ?thesis
    by (simp add: out sorted_wrt_take group_keys_strict)
qed

theorem at_most_five_rows_ascending_witness:
  "(\<exists>out. create_forecast_dataframe utc_zone six_days = Inr out \<and> length out = 5 \<and>
      map Date out = [0, 1, 2, 3, 4] \<and> sorted_wrt (<) (map Date out))"
  using at_most_five_rows_ascending [OF six_days_aggregated]
  by (simp add: six_days_aggregated)

text \<open>
  C2: on an empty sequence of samples \<open>create_forecast_dataframe\<close> does not return an
  empty table: the table built from no rows has no \<open>Date\<close> column, and grouping by it
  raises \<open>KeyError\<close>.
\<close>

theorem empty_forecast_raises:
  "create_forecast_dataframe tz [] = Inl (KeyError ''Date'')"
  by (simp add: create_forecast_dataframe_def)

subsection \<open>Temperatures\<close>



subsection \<open>The weather label\<close>

text \<open>
  Counterexample to C3 as stated: the only sample of the day is described as
  \<open>light rain\<close>, and the label of the day's row is \<open>Light rain\<close>.
\<close>

theorem label_of_first_sample_counterexample:
  "create_forecast_dataframe utc_zone [\<lparr>dt = 0, temp = 10, weather = [''light rain'']\<rparr>] =
     Inr [\<lparr>Date = 0, Max_Temp = 10, Min_Temp = 10, Weather = ''Light rain''\<rparr>] \<and>
   ''Light rain'' \<noteq> ''light rain''"
  by (simp add: create_forecast_dataframe_def df_row_of_def fromtimestamp_def
      utc_zone_def in_datetime_range_def MIN_SECONDS_def MAX_SECONDS_def date_of_def
      group_keys_def agg_def group_rows_def Let_def upper_char_def lower_char_def
      lower_letters_def upper_letters_def)

text \<open>
  C3, amended: the weather label of every returned row is the capitalized weather
  description of the first sample, in input order, that has the row's date.
\<close>

theorem label_of_first_sample:
  assumes "create_forecast_dataframe tz es = Inr out" and "r \<in> set out"
  shows "\<exists>e d ds. List.find (\<lambda>e. local_date tz e = Date r) es = Some e \<and>
           weather e = d # ds \<and> Weather r = capitalize d"
  using assms by (rule first_sample_label)

theorem label_of_first_sample_witness:
  "\<exists>e d ds. List.find (\<lambda>e. local_date utc_zone e = 0) sample_entries = Some e \<and>
     e = \<lparr>dt = 43200, temp = 10, weather = [''light rain'']\<rparr> \<and>
     weather e = d # ds \<and> ''Light rain'' = capitalize d"
proof -
  let ?r0 = "\<lparr>Date = 0, Max_Temp = 15, Min_Temp = 10, Weather = ''Light rain''\<rparr>"
  let ?r1 = "\<lparr>Date = 1, Max_Temp = 8, Min_Temp = 8, Weather = ''Few clouds''\<rparr>"
  have m0: "?r0 \<in> set [?r0, ?r1]" by simp
  have f: "List.find (\<lambda>e. local_date utc_zone e = 0) sample_entries =
      Some \<lparr>dt = 43200, temp = 10, weather = [''light rain'']\<rparr>"
    by (simp add: sample_entries_def local_date_def utc_zone_def date_of_def)
  from label_of_first_sample [OF sample_entries_aggregated m0] f show ?thesis
    by simp
qed








subsection \<open>The date of a sample\<close>

text \<open>
  Counterexample to C4 as stated: on a host one hour ahead of UTC, a sample stamped
  1970-01-01T23:00:00 UTC is grouped under day 1 (1970-01-02), while the date of its
  timestamp on the UTC basis is day 0.
\<close>

theorem date_basis_counterexample:
  "create_forecast_dataframe (fixed_zone 3600)
       [\<lparr>dt = 82800, temp = 10, weather = [''clear sky'']\<rparr>] =
     Inr [\<lparr>Date = 1, Max_Temp = 10, Min_Temp = 10, Weather = ''Clear sky''\<rparr>] \<and>
   date_of 82800 = 0"
  by (simp add: create_forecast_dataframe_def df_row_of_def fromtimestamp_def
      fixed_zone_def in_datetime_range_def MIN_SECONDS_def MAX_SECONDS_def date_of_def
      group_keys_def agg_def group_rows_def Let_def upper_char_def lower_char_def
      lower_letters_def upper_letters_def)

lemma build_df_list_rows:
  "build_df_list tz es = Inr df \<Longrightarrow> \<forall>e\<in>set es. df_row_of tz e = Inr (row_of tz e)"
proof (induction es arbitrary: df)
  case Nil
  then show ?case by simp
next
  case (Cons e es)
  then show ?case
    by (auto split: sum.splits dest: df_row_of_Inr)
qed

lemma create_forecast_dataframe_rows:
  assumes "create_forecast_dataframe tz es = Inr out"
  shows "\<forall>e\<in>set es. df_row_of tz e = Inr (row_of tz e)"
proof -
  from assms obtain df where "build_df_list tz es = Inr df"
    by (auto simp: create_forecast_dataframe_def split: sum.splits)
  then show ?thesis by (rule build_df_list_rows)
qed

lemma group_keys_row_of:
  "group_keys (map (row_of tz) es) = sort (remdups (map (local_date tz) es))"
  by (simp add: group_keys_def row_of_def comp_def)

lemma local_date_eq: "local_date tz = (\<lambda>e. (dt e + tz (dt e)) div 86400)"
  by (rule ext) (simp add: local_date_def date_of_def)

text \<open>
  C4, amended: for every sample, the calendar date used for grouping is the date of the
  sample's timestamp in the host's local time zone: the \<open>Date\<close> column of its row is the
  day of \<open>dt + tz dt\<close>, which is the day of \<open>dt\<close> itself, on the UTC basis, where the
  host's offset is zero at that instant; nothing from the forecast is added to the
  timestamp. The returned dates are the first five of these dates in ascending order, and
  each returned row aggregates exactly the samples that have its date: its maximum and
  minimum are taken over their temperatures, and its label from the first of them.
\<close>

theorem date_basis:
  assumes "create_forecast_dataframe tz es = Inr out"
  shows "(\<forall>e\<in>set es. \<exists>row. df_row_of tz e = Inr row \<and>
            row_Date row = (dt e + tz (dt e)) div 86400 \<and>
            (tz (dt e) = 0 \<longrightarrow> row_Date row = dt e div 86400)) \<and>
         map Date out =
           take 5 (sort (remdups (map (\<lambda>e. (dt e + tz (dt e)) div 86400) es))) \<and>
         (\<forall>r\<in>set out.
            Max_Temp r = series_max (map temp
              (filter (\<lambda>e. (dt e + tz (dt e)) div 86400 = Date r) es)) \<and>
            Min_Temp r = series_min (map temp
              (filter (\<lambda>e. (dt e + tz (dt e)) div 86400 = Date r) es)) \<and>
            (\<exists>e d ds. List.find (\<lambda>e. (dt e + tz (dt e)) div 86400 = Date r) es = Some e \<and>
               weather e = d # ds \<and> Weather r = capitalize d))"
proof (intro conjI ballI)
  fix e assume "e \<in> set es"
  with create_forecast_dataframe_rows [OF assms]
  have "df_row_of tz e = Inr (row_of tz e)" by blast
  moreover have "row_Date (row_of tz e) = (dt e + tz (dt e)) div 86400"
    by (simp add: row_of_def local_date_def date_of_def)
  ultimately show "\<exists>row. df_row_of tz e = Inr row \<and>
      row_Date row = (dt e + tz (dt e)) div 86400 \<and>
      (tz (dt e) = 0 \<longrightarrow> row_Date row = dt e div 86400)"
    by auto
next
  from create_forecast_dataframe_Inr [OF assms]
  have "out = take 5 (map (agg (map (row_of tz) es)) (group_keys (map (row_of tz) es)))"
    by blast
  then have "map Date out = take 5 (group_keys (map (row_of tz) es))"
    by (simp add: take_map [symmetric] map_Date_agg del: map_map)
  then show "map Date out =
      take 5 (sort (remdups (map (\<lambda>e. (dt e + tz (dt e)) div 86400) es)))"
    by (simp add: group_keys_row_of local_date_eq)
next
  fix r assume r: "r \<in> set out"
  let ?g = "filter (\<lambda>e. local_date tz e = Date r) es"
  from out_row [OF assms r] have a: "r = agg (map (row_of tz) es) (Date r)" by blast
  have "Max_Temp r = series_max (map temp ?g)"
    by (subst a) (simp add: agg_def Let_def group_rows_map comp_def row_of_def)
  then show "Max_Temp r = series_max (map temp
      (filter (\<lambda>e. (dt e + tz (dt e)) div 86400 = Date r) es))"
    by (simp add: local_date_eq)
next
  fix r assume r: "r \<in> set out"
  let ?g = "filter (\<lambda>e. local_date tz e = Date r) es"
  from out_row [OF assms r] have a: "r = agg (map (row_of tz) es) (Date r)" by blast
  have "Min_Temp r = series_min (map temp ?g)"
    by (subst a) (simp add: agg_def Let_def group_rows_map comp_def row_of_def)
  then show "Min_Temp r = series_min (map temp
      (filter (\<lambda>e. (dt e + tz (dt e)) div 86400 = Date r) es))"
    by (simp add: local_date_eq)
next
  fix r assume r: "r \<in> set out"
  from first_sample_label [OF assms r]
  show "\<exists>e d ds. List.find (\<lambda>e. (dt e + tz (dt e)) div 86400 = Date r) es = Some e \<and>
      weather e = d # ds \<and> Weather r = capitalize d"
    by (simp add: local_date_eq)
qed

theorem date_basis_witness:
  "(\<exists>row. df_row_of utc_zone \<lparr>dt = 129600, temp = 8, weather = [''few clouds'']\<rparr> = Inr row \<and>
      row_Date row = 1 \<and> row_Date row = 129600 div 86400) \<and>
   map Date [\<lparr>Date = 0, Max_Temp = 15, Min_Temp = 10, Weather = ''Light rain''\<rparr>,
             \<lparr>Date = 1, Max_Temp = 8, Min_Temp = 8, Weather = ''Few clouds''\<rparr>] =
     take 5 (sort (remdups (map (\<lambda>e. (dt e + utc_zone (dt e)) div 86400) sample_entries))) \<and>
   series_max (map temp (filter (\<lambda>e. (dt e + utc_zone (dt e)) div 86400 = 0) sample_entries))
     = 15 \<and>
   series_min (map temp (filter (\<lambda>e. (dt e + utc_zone (dt e)) div 86400 = 0) sample_entries))
     = 10"
proof -
  let ?r0 = "\<lparr>Date = 0, Max_Temp = 15, Min_Temp = 10, Weather = ''Light rain''\<rparr>"
  let ?r1 = "\<lparr>Date = 1, Max_Temp = 8, Min_Temp = 8, Weather = ''Few clouds''\<rparr>"
  let ?e = "\<lparr>dt = 129600, temp = 8, weather = [''few clouds'']\<rparr>"
  note t = date_basis [OF sample_entries_aggregated]
  have "?e \<in> set sample_entries" by (simp add: sample_entries_def)
  with t have "\<exists>row. df_row_of utc_zone ?e = Inr row \<and>
      row_Date row = (dt ?e + utc_zone (dt ?e)) div 86400 \<and>
      (utc_zone (dt ?e) = 0 \<longrightarrow> row_Date row = dt ?e div 86400)" by blast
  then have a: "\<exists>row. df_row_of utc_zone ?e = Inr row \<and>
      row_Date row = 1 \<and> row_Date row = 129600 div 86400"
    by (simp add: utc_zone_def)
  from t have b: "map Date [?r0, ?r1] =
      take 5 (sort (remdups (map (\<lambda>e. (dt e + utc_zone (dt e)) div 86400) sample_entries)))"
    by blast
  have "?r0 \<in> set [?r0, ?r1]" by simp
  with t have "Max_Temp ?r0 = series_max (map temp
        (filter (\<lambda>e. (dt e + utc_zone (dt e)) div 86400 = Date ?r0) sample_entries)) \<and>
      Min_Temp ?r0 = series_min (map temp
        (filter (\<lambda>e. (dt e + utc_zone (dt e)) div 86400 = Date ?r0) sample_entries))"
    by blast
  then have c: "series_max (map temp
        (filter (\<lambda>e. (dt e + utc_zone (dt e)) div 86400 = 0) sample_entries)) = 15 \<and>
      series_min (map temp
        (filter (\<lambda>e. (dt e + utc_zone (dt e)) div 86400 = 0) sample_entries)) = 10"
    by simp
  from a b c show ?thesis by blast
qed

section \<open>Properties of the weather client\<close>

text \<open>
  C5: a response with a status other than 200 whose body is not JSON does not yield the
  error the claim describes. Here both requests are answered with status 502 and such a
  body: \<open>.json()\<close> raises before the fallback message can be used, and no error
  dictionary is returned.
\<close>

theorem non_json_error_body_raises:
  "get_weather_data
     (stub_transport \<lparr>status_code = 502, body = None\<rparr> \<lparr>status_code = 502, body = None\<rparr>)
     ''London'' ''metric'' = Inl JSONDecodeError"
  by (simp add: get_weather_data_def stub_transport_def error_of_def response_json_def)

text \<open>
  Where the body of the first failing response is a JSON object, the function does return
  a single error: the value of the object's \<open>message\<close> field, or the generic message of
  that request when the field is absent, and nothing of the other response.
\<close>

lemma error_of_json_object:
  assumes "get CURRENT_URL [(''q'', city), (''appid'', API_KEY), (''units'', unit)] = Inr cur"
    and "get FORECAST_URL [(''q'', city), (''appid'', API_KEY), (''units'', unit)] = Inr fc"
    and "status_code cur \<noteq> 200 \<or> status_code fc \<noteq> 200"
    and "failing = (if status_code cur \<noteq> 200 then cur else fc)"
    and "fallback = (if status_code cur \<noteq> 200 then ''Error fetching current weather data.''
                     else ''Error fetching forecast data.'')"
    and "body failing = Some (JObj kvs)"
  shows "get_weather_data get city unit =
           Inr (Error (case map_of kvs ''message'' of Some m \<Rightarrow> m | None \<Rightarrow> JStr fallback))"
proof (cases "status_code cur = 200")
  case True
  with assms show ?thesis
    by (simp add: get_weather_data_def error_of_def response_json_def json_get_def
        split: option.splits)
next
  case False
  with assms show ?thesis
    by (simp add: get_weather_data_def error_of_def response_json_def json_get_def
        split: option.splits)
qed

lemma error_of_json_object_example:
  "get_weather_data
     (stub_transport
        \<lparr>status_code = 404,
         body = Some (JObj [(''cod'', JStr ''404''), (''message'', JStr ''city not found'')])\<rparr>
        \<lparr>status_code = 200, body = Some (JObj [(''list'', JArr [])])\<rparr>)
     ''InvalidPlaceXYZ123'' ''metric'' = Inr (Error (JStr ''city not found'')) \<and>
   get_weather_data
     (stub_transport
        \<lparr>status_code = 200, body = Some (JObj [(''name'', JStr ''London'')])\<rparr>
        \<lparr>status_code = 500, body = Some (JObj [])\<rparr>)
     ''London'' ''metric'' = Inr (Error (JStr ''Error fetching forecast data.''))"
  by (simp add: get_weather_data_def stub_transport_def error_of_def response_json_def
      json_get_def CURRENT_URL_def FORECAST_URL_def)

end
